theory Spec2Isabelle
  imports Complex_Main "HOL-Library.Monad_Syntax"
begin

section \<open>Arrays and the operations of numpy that the model uses\<close>

text \<open>
  A one-dimensional numpy array is a list. Integer arrays hold \<open>int\<close> (the wrap-around of
  64-bit integers is left out: the counts of the model are far below it), float arrays hold
  \<open>real\<close>: the floating-point numbers of the source are idealised as real numbers, so a
  theorem below says what the formulas compute, not how they are rounded. A call that raises
  is the value \<open>None\<close>.
\<close>

type_synonym ivec = "int list"
type_synonym rvec = "real list"

text \<open>
  An elementwise binary operation of two arrays: equal lengths pair up, an operand of
  length one is broadcast, any other pair of shapes raises ValueError.
\<close>

definition np_binop :: "('a \<Rightarrow> 'b \<Rightarrow> 'c) \<Rightarrow> 'a list \<Rightarrow> 'b list \<Rightarrow> 'c list option" where
  "np_binop f xs ys =
     (if length xs = length ys then Some (map2 f xs ys)
      else if length xs = 1 then Some (map (f (hd xs)) ys)
      else if length ys = 1 then Some (map (\<lambda>x. f x (hd ys)) xs)
      else None)"

text \<open>\<open>np.cumsum\<close>: the running sums of an array.\<close>

fun cumsum_from :: "int \<Rightarrow> ivec \<Rightarrow> ivec" where
  "cumsum_from acc [] = []"
| "cumsum_from acc (x # xs) = (acc + x) # cumsum_from (acc + x) xs"

definition cumsum :: "ivec \<Rightarrow> ivec" where
  "cumsum xs = cumsum_from 0 xs"

text \<open>\<open>np.concatenate(([0], np.cumsum(v)[:-1]))\<close>, the sums of the entries before each day.\<close>

definition shifted_cumsum :: "ivec \<Rightarrow> ivec" where
  "shifted_cumsum v = 0 # butlast (cumsum v)"

text \<open>
  Indexing with an array of indices: \<open>x[idx]\<close> reads, \<open>x[idx] = vals\<close> writes the values
  one index after the other, and \<open>x[idx] -= vals\<close> is \<open>x[idx] = x[idx] - vals\<close>, where
  the right-hand side is read before anything is written.
\<close>

definition np_take :: "'a list \<Rightarrow> nat list \<Rightarrow> 'a list" where
  "np_take x idx = map (\<lambda>i. x ! i) idx"

definition np_put :: "'a list \<Rightarrow> nat list \<Rightarrow> 'a list \<Rightarrow> 'a list" where
  "np_put x idx vals = fold (\<lambda>(i, v) a. a[i := v]) (zip idx vals) x"

definition np_isub :: "ivec \<Rightarrow> nat list \<Rightarrow> ivec \<Rightarrow> ivec" where
  "np_isub x idx vals = np_put x idx (map2 (\<lambda>a b. a - b) (np_take x idx) vals)"

definition np_iadd :: "ivec \<Rightarrow> nat list \<Rightarrow> ivec \<Rightarrow> ivec" where
  "np_iadd x idx vals = np_put x idx (map2 (\<lambda>a b. a + b) (np_take x idx) vals)"

text \<open>\<open>assert c\<close>: goes on when \<open>c\<close> holds, raises AssertionError otherwise.\<close>

definition py_assert :: "bool \<Rightarrow> unit option" where
  "py_assert c = (if c then Some () else None)"

text \<open>\<open>round_int(x) = np.floor(x + 0.5).astype(int)\<close>\<close>

definition round_int :: "real \<Rightarrow> int" where
  "round_int x = \<lfloor>x + 0.5\<rfloor>"

section \<open>The recursion library\<close>

text \<open>
  \<open>compute_S\<close>: \<open>N[0] - np.concatenate(([0], np.cumsum(B)[:-1])) + N - N[0]\<close>.
  \<open>N[0]\<close> raises IndexError on an empty \<open>N\<close>; it is a scalar, so the first and the last
  operation map over the array, the addition of \<open>N\<close> is elementwise.
\<close>

definition compute_S :: "int \<Rightarrow> int \<Rightarrow> int \<Rightarrow> ivec \<Rightarrow> ivec \<Rightarrow> ivec option" where
  "compute_S e0 i_mild0 i_wild0 B N =
     (case N of
        [] \<Rightarrow> None
      | n0 # _ \<Rightarrow> do {
          a \<leftarrow> np_binop (\<lambda>u v. u + v) (map (\<lambda>c. n0 - c) (shifted_cumsum B)) N;
          Some (map (\<lambda>v. v - n0) a)
        })"

text \<open>\<open>compute_E\<close>: \<open>e0 + np.concatenate(([0], np.cumsum(B - C)[:-1]))\<close>\<close>

definition compute_E :: "int \<Rightarrow> ivec \<Rightarrow> ivec \<Rightarrow> ivec option" where
  "compute_E e0 B C = do {
     d \<leftarrow> np_binop (\<lambda>u v. u - v) B C;
     Some (map (\<lambda>c. e0 + c) (shifted_cumsum d))
   }"

text \<open>\<open>compute_I\<close>: \<open>i0 + np.concatenate(([0], np.cumsum(C - D)[:-1]))\<close>\<close>

definition compute_I :: "int \<Rightarrow> ivec \<Rightarrow> ivec \<Rightarrow> ivec option" where
  "compute_I i0 C D = do {
     d \<leftarrow> np_binop (\<lambda>u v. u - v) C D;
     Some (map (\<lambda>c. i0 + c) (shifted_cumsum d))
   }"

text \<open>
  \<open>transmission_rate\<close>. The day of control \<open>t_ctrl\<close> is a natural number: the caller
  asserts \<open>t_ctrl >= 0\<close>. The last statement before the return is
  \<open>assert trans_rate.all() >= 0\<close>: \<open>trans_rate.all()\<close> is the boolean "every entry is
  non-zero", and that boolean is compared with 0.
\<close>

definition transmission_rate :: "real \<Rightarrow> real \<Rightarrow> nat \<Rightarrow> nat \<Rightarrow> rvec option" where
  "transmission_rate beta q t_ctrl t_end =
     (let trans_rate0 = map (\<lambda>one. one * beta) (replicate t_end 1);
          trans_rate =
            (if t_ctrl < t_end then
               (let ctrl_indices = [t_ctrl..<t_end]
                in np_put trans_rate0 ctrl_indices
                     (map (\<lambda>i. beta * exp (- q * (real i - real t_ctrl))) ctrl_indices))
             else trans_rate0)
      in do {
        _ \<leftarrow> py_assert ((of_bool (list_all (\<lambda>v. v \<noteq> 0) trans_rate) :: int) \<ge> 0);
        Some trans_rate
      })"

text \<open>
  \<open>compute_P\<close>: \<open>1 - np.exp(-trans_rate * (I_mild+I_wild) / N)\<close>. Where \<open>N(t) = 0\<close> the
  source divides by zero and gets an infinity or a nan, which a real number cannot be (the
  quotient is 0 in HOL): what is proved of \<open>P\<close> below is proved for \<open>N(t) > 0\<close>.
\<close>

definition compute_P :: "rvec \<Rightarrow> ivec \<Rightarrow> ivec \<Rightarrow> ivec \<Rightarrow> rvec option" where
  "compute_P trans_rate I_mild I_wild N = do {
     i \<leftarrow> np_binop (\<lambda>u v. u + v) I_mild I_wild;
     a \<leftarrow> np_binop (\<lambda>r j. r * real_of_int j) (map uminus trans_rate) i;
     b \<leftarrow> np_binop (\<lambda>u n. u / real_of_int n) a N;
     Some (map (\<lambda>v. 1 - exp v) b)
   }"

section \<open>Randomness and the library of distributions\<close>

text \<open>
  Every random draw of the source is an argument of the model, so a run of the model is
  one run of the program with these draws. One attempt of the single-site resampler draws
  the source indices \<open>t_new\<close> (\<open>np.random.choice\<close> without replacement among the
  indices whose entry is at least 1, as many as \<open>min(15, number of non-zero entries)\<close>),
  as many destination indices \<open>t_tilde\<close> (without replacement among all indices) and
  the coin \<open>one_off\<close>. \<open>valid_draw\<close> says what \<open>np.random.choice\<close> guarantees.
\<close>

record draw =
  t_new :: "nat list"
  t_tilde :: "nat list"
  one_off :: bool

definition valid_draw :: "ivec \<Rightarrow> draw \<Rightarrow> bool" where
  "valid_draw x d \<longleftrightarrow>
     distinct (t_new d) \<and> list_all (\<lambda>i. i < length x \<and> 1 \<le> x ! i) (t_new d) \<and>
     length (t_new d) = min 15 (length (filter (\<lambda>v. v \<noteq> 0) x)) \<and>
     distinct (t_tilde d) \<and> list_all (\<lambda>i. i < length x) (t_tilde d) \<and>
     length (t_tilde d) = length (t_new d)"

text \<open>
  \<open>np.log(np.random.uniform(0, 1)) <= a\<close> for the uniform draw \<open>u\<close> of the half-open
  interval from 0 to 1: the logarithm of 0 is minus infinity in the source, which is below
  every \<open>a\<close>.
\<close>

definition log_uniform_le :: "real \<Rightarrow> real \<Rightarrow> bool" where
  "log_uniform_le u a \<longleftrightarrow> u = 0 \<or> ln u \<le> a"

text \<open>
  The probability mass and density functions come from \<open>scipy.stats\<close>, which is not part
  of the repository: they are parameters of the model, \<open>binom_pmf st n p k\<close> for
  \<open>sp.stats.binom(n, p).pmf(k)\<close> and \<open>gamma_pdf st a b x\<close> for
  \<open>sp.stats.gamma(a, b).pdf(x)\<close>. A real number cannot be a nan, so the assertions
  \<open>assert not np.isnan(...)\<close> of the source have no counterpart.
\<close>

record scipy_stats =
  binom_pmf :: "int \<Rightarrow> real \<Rightarrow> int \<Rightarrow> real"
  gamma_pdf :: "real \<Rightarrow> real \<Rightarrow> real \<Rightarrow> real"

text \<open>\<open>np.sum(np.log(sp.stats.binom(n, p).pmf(k) + epsilon))\<close> for arrays \<open>n\<close>, \<open>p\<close>, \<open>k\<close>\<close>

definition binom_loglik :: "scipy_stats \<Rightarrow> ivec \<Rightarrow> rvec \<Rightarrow> ivec \<Rightarrow> real \<Rightarrow> real option" where
  "binom_loglik stats n p k epsilon = do {
     np \<leftarrow> np_binop Pair n p;
     v \<leftarrow> np_binop (\<lambda>(n, p) k. binom_pmf stats n p k) np k;
     Some (sum_list (map (\<lambda>y. ln (y + epsilon)) v))
   }"

text \<open>\<open>beta, q, delta, rho, gamma_mild, gamma_wild, k = params\<close> raises unless there are seven.\<close>

definition unpack7 :: "'a list \<Rightarrow> ('a \<times> 'a \<times> 'a \<times> 'a \<times> 'a \<times> 'a \<times> 'a) option" where
  "unpack7 p = (case p of [a, b, c, d, e, f, g] \<Rightarrow> Some (a, b, c, d, e, f, g) | _ \<Rightarrow> None)"

section \<open>The Metropolis-Hastings driver\<close>

text \<open>
  \<open>rnd k\<close> holds the draws of step \<open>k\<close>: those of the proposal and the uniform number.
  \<open>burn_in\<close> is a natural number (every call of the source passes 1), and the loop
  \<open>while burn_in: burn_in -= 1\<close> is a recursion on it.
\<close>

fun mh_loop ::
  "nat \<Rightarrow> nat \<Rightarrow> 'x \<Rightarrow> 'd \<Rightarrow> ('x \<Rightarrow> 'd \<Rightarrow> real option) \<Rightarrow>
   ('r \<Rightarrow> 'x \<Rightarrow> 'd \<Rightarrow> 'c \<Rightarrow> ('x \<times> 'd) option) \<Rightarrow> 'c \<Rightarrow> (nat \<Rightarrow> 'r \<times> real) \<Rightarrow> ('x \<times> 'd) option"
where
  "mh_loop 0 k x data fn proposal conditions_fn rnd = Some (x, data)"
| "mh_loop (Suc burn_in) k x data fn proposal conditions_fn rnd = do {
     (x_new, data_new) \<leftarrow> proposal (fst (rnd k)) x data conditions_fn;
     l_new \<leftarrow> fn x_new data_new;
     l_old \<leftarrow> fn x data;
     let accept_log_prob = min 0 (l_new - l_old);
     if log_uniform_le (snd (rnd k)) accept_log_prob
     then mh_loop burn_in (Suc k) x_new data_new fn proposal conditions_fn rnd
     else mh_loop burn_in (Suc k) x data fn proposal conditions_fn rnd
   }"

definition metropolis_hastings ::
  "'x \<Rightarrow> 'd \<Rightarrow> ('x \<Rightarrow> 'd \<Rightarrow> real option) \<Rightarrow>
   ('r \<Rightarrow> 'x \<Rightarrow> 'd \<Rightarrow> 'c \<Rightarrow> ('x \<times> 'd) option) \<Rightarrow> 'c \<Rightarrow> nat \<Rightarrow> (nat \<Rightarrow> 'r \<times> real) \<Rightarrow>
   ('x \<times> 'd \<times> real \<times> real) option"
where
  "metropolis_hastings x data fn proposal conditions_fn burn_in rnd = do {
     old_log_prob \<leftarrow> fn x data;
     (x', data') \<leftarrow> mh_loop burn_in 0 x data fn proposal conditions_fn rnd;
     l \<leftarrow> fn x' data';
     Some (x', data', l, old_log_prob)
   }"

section \<open>The single-site resampler\<close>

text \<open>
  The changes of one attempt: 1 and 1 for the unit swap, otherwise
  \<open>x_new[t_tilde]//79\<close> to add and \<open>x_new[t_new]//80\<close> to subtract, both read before
  \<open>x_new\<close> is changed.
\<close>

definition change_add :: "ivec \<Rightarrow> draw \<Rightarrow> ivec" where
  "change_add x_new d =
     (if one_off d then replicate (length (t_tilde d)) 1
      else map (\<lambda>v. v div 79) (np_take x_new (t_tilde d)))"

definition change_subs :: "ivec \<Rightarrow> draw \<Rightarrow> ivec" where
  "change_subs x_new d =
     (if one_off d then replicate (length (t_new d)) 1
      else map (\<lambda>v. v div 80) (np_take x_new (t_new d)))"

text \<open>\<open>x_new[t_new] -= change_subs; x_new[t_tilde] += change_add\<close>\<close>

definition candidate :: "ivec \<Rightarrow> draw \<Rightarrow> ivec" where
  "candidate x_new d =
     np_iadd (np_isub x_new (t_new d) (change_subs x_new d)) (t_tilde d) (change_add x_new d)"

datatype 'd attempt = Accepted ivec 'd | Reverted ivec

text \<open>
  The body of the loop of \<open>sample_x\<close>. \<open>np.random.choice\<close> raises when it is asked for
  more source indices than there are entries of at least 1, and the source asserts that
  the chosen entries are at least 1. On an infeasible candidate the changes are taken
  back: \<open>x_new[t_new] += change_subs; x_new[t_tilde] -= change_add\<close>.
\<close>

definition sample_x_attempt ::
  "ivec \<Rightarrow> draw \<Rightarrow> (ivec \<Rightarrow> 'd \<Rightarrow> bool) \<Rightarrow> (ivec \<Rightarrow> 'd option) \<Rightarrow> 'd attempt option"
where
  "sample_x_attempt x_new d conditions_fn data_fn = do {
     _ \<leftarrow> py_assert (min 15 (length (filter (\<lambda>v. v \<noteq> 0) x_new))
                       \<le> length (filter (\<lambda>v. 1 \<le> v) x_new));
     _ \<leftarrow> py_assert (list_all (\<lambda>v. 1 \<le> v) (np_take x_new (t_new d)));
     let add = change_add x_new d;
     let subs = change_subs x_new d;
     let x1 = candidate x_new d;
     data_new \<leftarrow> data_fn x1;
     if conditions_fn x1 data_new then Some (Accepted x1 data_new)
     else Some (Reverted (np_isub (np_iadd x1 (t_new d) subs) (t_tilde d) add))
   }"

function sample_x_loop ::
  "nat \<Rightarrow> ivec \<Rightarrow> ivec \<Rightarrow> 'd \<Rightarrow> (ivec \<Rightarrow> 'd \<Rightarrow> bool) \<Rightarrow> (ivec \<Rightarrow> 'd option) \<Rightarrow> (nat \<Rightarrow> draw) \<Rightarrow>
   (ivec \<times> 'd) option"
where
  "sample_x_loop n_tries x_new x data conditions_fn data_fn draws =
     (if n_tries < 100 then
        (case sample_x_attempt x_new (draws n_tries) conditions_fn data_fn of
           None \<Rightarrow> None
         | Some (Accepted x1 data_new) \<Rightarrow> Some (x1, data_new)
         | Some (Reverted x2) \<Rightarrow>
             sample_x_loop (n_tries + 1) x2 x data conditions_fn data_fn draws)
      else Some (x, data))"
  by pat_completeness auto
termination
  by (relation "measure (\<lambda>(n_tries, _). 100 - n_tries)") auto

definition sample_x ::
  "ivec \<Rightarrow> 'd \<Rightarrow> (ivec \<Rightarrow> 'd \<Rightarrow> bool) \<Rightarrow> (ivec \<Rightarrow> 'd option) \<Rightarrow> (nat \<Rightarrow> draw) \<Rightarrow> (ivec \<times> 'd) option"
where
  "sample_x x data conditions_fn data_fn draws =
     sample_x_loop 0 x x data conditions_fn data_fn draws"

section \<open>The samplers of the latent series\<close>

text \<open>
  The functions \<open>fn\<close>, \<open>data_fn\<close> and \<open>conditions_fn\<close> that each sampler defines
  inside its body are definitions of their own here, with the variables they capture as
  their first arguments. \<open>(v >= 0).all()\<close> is \<open>list_all (\<lambda>v. 0 \<le> v)\<close>.
\<close>

definition sample_B_fn :: "scipy_stats \<Rightarrow> rvec \<Rightarrow> real \<Rightarrow> ivec \<Rightarrow> ivec \<times> ivec \<Rightarrow> real option" where
  "sample_B_fn stats P epsilon x data = (case data of (S, E) \<Rightarrow> binom_loglik stats S P x epsilon)"

definition sample_B_data_fn ::
  "int \<Rightarrow> int \<Rightarrow> int \<Rightarrow> ivec \<Rightarrow> ivec \<Rightarrow> ivec \<Rightarrow> (ivec \<times> ivec) option" where
  "sample_B_data_fn e0 i_mild0 i_wild0 C N x = do {
     S_new \<leftarrow> compute_S e0 i_mild0 i_wild0 x N;
     E_new \<leftarrow> compute_E e0 x C;
     Some (S_new, E_new)
   }"

definition sample_B_conditions_fn :: "ivec \<Rightarrow> ivec \<times> ivec \<Rightarrow> bool" where
  "sample_B_conditions_fn x data =
     (case data of (S, E) \<Rightarrow> list_all (\<lambda>v. 0 \<le> v) S \<and> list_all (\<lambda>v. 0 \<le> v) E)"

definition sample_B ::
  "scipy_stats \<Rightarrow> ivec \<Rightarrow> ivec \<times> ivec \<times> ivec \<times> ivec \<times> ivec \<times> rvec \<times> ivec \<Rightarrow> int \<times> int \<times> int \<Rightarrow>
   rvec \<Rightarrow> nat \<Rightarrow> real \<Rightarrow> (nat \<Rightarrow> (nat \<Rightarrow> draw) \<times> real) \<Rightarrow>
   (ivec \<times> ivec \<times> ivec \<times> real \<times> real) option"
where
  "sample_B stats B variables inits params t_ctrl epsilon rnd =
     (case inits of (e0, i_mild0, i_wild0) \<Rightarrow>
      case variables of (S, E, I_mild, I_wild, C, P, N) \<Rightarrow> do {
        _ \<leftarrow> unpack7 params;
        (B', data, log_prob_new, log_prob_old) \<leftarrow>
          metropolis_hastings B (S, E) (sample_B_fn stats P epsilon)
            (\<lambda>draws x data conditions_fn.
               sample_x x data conditions_fn (sample_B_data_fn e0 i_mild0 i_wild0 C N) draws)
            sample_B_conditions_fn 1 rnd;
        Some (B', fst data, snd data, log_prob_new, log_prob_old)
      })"

definition sample_C_fn ::
  "scipy_stats \<Rightarrow> real \<Rightarrow> real \<Rightarrow> ivec \<Rightarrow> ivec \<times> ivec \<times> ivec \<times> rvec \<Rightarrow> real option" where
  "sample_C_fn stats rho epsilon x data =
     (case data of (E, I_mild, I_wild, P) \<Rightarrow> do {
        let pC = 1 - exp (- rho);
        _ \<leftarrow> py_assert (0 \<le> pC \<and> pC \<le> 1);
        binom_loglik stats E [pC] x epsilon
      })"

definition sample_C_data_fn ::
  "int \<Rightarrow> int \<Rightarrow> int \<Rightarrow> real \<Rightarrow> real \<Rightarrow> real \<Rightarrow> nat \<Rightarrow> nat \<Rightarrow> ivec \<Rightarrow> ivec \<Rightarrow> ivec \<Rightarrow> ivec \<Rightarrow>
   ivec \<Rightarrow> (ivec \<times> ivec \<times> ivec \<times> rvec) option"
where
  "sample_C_data_fn e0 i_mild0 i_wild0 beta q delta t_ctrl t_end B D_mild D_wild N x = do {
     E_new \<leftarrow> compute_E e0 B x;
     I_mild_new \<leftarrow> compute_I i_mild0 (map (\<lambda>c. round_int (delta * real_of_int c)) x) D_mild;
     c_wild \<leftarrow> np_binop (\<lambda>u v. u - v) x (map (\<lambda>c. round_int (delta * real_of_int c)) x);
     I_wild_new \<leftarrow> compute_I i_wild0 c_wild D_wild;
     t_rate \<leftarrow> transmission_rate beta q t_ctrl t_end;
     P_new \<leftarrow> compute_P t_rate I_mild_new I_wild_new N;
     Some (E_new, I_mild_new, I_wild_new, P_new)
   }"

definition sample_C_conditions_fn :: "ivec \<Rightarrow> ivec \<times> ivec \<times> ivec \<times> rvec \<Rightarrow> bool" where
  "sample_C_conditions_fn x data =
     (case data of (E, I_mild, I_wild, P) \<Rightarrow>
        list_all (\<lambda>v. 0 \<le> v) E \<and> list_all (\<lambda>v. 0 \<le> v) I_mild \<and> list_all (\<lambda>v. 0 \<le> v) I_wild)"

definition sample_C ::
  "scipy_stats \<Rightarrow> ivec \<Rightarrow> ivec \<times> ivec \<times> ivec \<times> ivec \<times> ivec \<times> ivec \<times> ivec \<times> rvec \<Rightarrow>
   int \<times> int \<times> int \<Rightarrow> rvec \<Rightarrow> nat \<Rightarrow> real \<Rightarrow> (nat \<Rightarrow> (nat \<Rightarrow> draw) \<times> real) \<Rightarrow>
   (ivec \<times> ivec \<times> ivec \<times> ivec \<times> rvec \<times> real \<times> real) option"
where
  "sample_C stats C variables inits params t_ctrl epsilon rnd =
     (case inits of (e0, i_mild0, i_wild0) \<Rightarrow>
      case variables of (E, I_mild, I_wild, D_mild, D_wild, B, N, P) \<Rightarrow> do {
        let t_end = length C;
        (beta, q, delta, rho, gamma_mild, gamma_wild, k) \<leftarrow> unpack7 params;
        (C', data, log_prob_new, log_prob_old) \<leftarrow>
          metropolis_hastings C (E, I_mild, I_wild, P) (sample_C_fn stats rho epsilon)
            (\<lambda>draws x data conditions_fn.
               sample_x x data conditions_fn
                 (sample_C_data_fn e0 i_mild0 i_wild0 beta q delta t_ctrl t_end B D_mild D_wild N)
                 draws)
            sample_C_conditions_fn 1 rnd;
        (case data of (E', I_mild', I_wild', P') \<Rightarrow>
           Some (C', E', I_mild', I_wild', P', log_prob_new, log_prob_old))
      })"

text \<open>The data of \<open>sample_D_mild\<close> is the list \<open>[I_mild]\<close> of one array.\<close>

definition sample_D_mild_fn :: "scipy_stats \<Rightarrow> real \<Rightarrow> real \<Rightarrow> ivec \<Rightarrow> ivec \<Rightarrow> real option" where
  "sample_D_mild_fn stats gamma_mild epsilon x I_mild = do {
     let pR = 1 - exp (- gamma_mild);
     _ \<leftarrow> py_assert (0 \<le> pR \<and> pR \<le> 1);
     binom_loglik stats I_mild [pR] x epsilon
   }"

definition sample_D_mild_data_fn :: "int \<Rightarrow> real \<Rightarrow> ivec \<Rightarrow> ivec \<Rightarrow> ivec option" where
  "sample_D_mild_data_fn i_mild0 delta C x =
     compute_I i_mild0 (map (\<lambda>c. round_int (real_of_int c * delta)) C) x"

definition sample_D_mild_conditions_fn :: "ivec \<Rightarrow> ivec \<Rightarrow> bool" where
  "sample_D_mild_conditions_fn x I_mild = list_all (\<lambda>v. 0 \<le> v) I_mild"

definition sample_D_mild ::
  "scipy_stats \<Rightarrow> ivec \<Rightarrow> ivec \<times> ivec \<times> ivec \<times> ivec \<Rightarrow> int \<times> int \<times> int \<Rightarrow> rvec \<Rightarrow> nat \<Rightarrow> real \<Rightarrow>
   (nat \<Rightarrow> (nat \<Rightarrow> draw) \<times> real) \<Rightarrow> (ivec \<times> ivec \<times> rvec \<times> real \<times> real) option"
where
  "sample_D_mild stats D_mild variables inits params t_ctrl epsilon rnd =
     (case inits of (e0, i_mild0, i_wild0) \<Rightarrow>
      case variables of (I_mild, I_wild, C, N) \<Rightarrow> do {
        let t_end = length D_mild;
        (beta, q, delta, rho, gamma_mild, gamma_wild, k) \<leftarrow> unpack7 params;
        (D_mild', I_mild', log_prob_new, log_prob_old) \<leftarrow>
          metropolis_hastings D_mild I_mild (sample_D_mild_fn stats gamma_mild epsilon)
            (\<lambda>draws x data conditions_fn.
               sample_x x data conditions_fn (sample_D_mild_data_fn i_mild0 delta C) draws)
            sample_D_mild_conditions_fn 1 rnd;
        t_rate \<leftarrow> transmission_rate beta q t_ctrl t_end;
        P' \<leftarrow> compute_P t_rate I_mild' I_wild N;
        Some (D_mild', I_mild', P', log_prob_new, log_prob_old)
      })"

section \<open>The sampler of the parameters\<close>

type_synonym pdata = "ivec \<times> ivec \<times> ivec \<times> ivec \<times> rvec \<times> ivec"

text \<open>
  \<open>priors\<close> and \<open>bounds\<close> are lists of pairs; the upper bound \<open>np.inf\<close> of the caller is
  \<open>None\<close>. Both loops \<open>for i in range(len(...))\<close> read \<open>x[i]\<close> and raise IndexError
  when the list is longer than \<open>x\<close>.
\<close>

definition sample_params_fn ::
  "scipy_stats \<Rightarrow> ivec \<Rightarrow> ivec \<Rightarrow> ivec \<Rightarrow> ivec \<Rightarrow> (real \<times> real) list \<Rightarrow> real \<Rightarrow> rvec \<Rightarrow> pdata \<Rightarrow>
   real option"
where
  "sample_params_fn stats B C D_mild D_wild priors epsilon x data =
     (case data of (S, E, I_mild, I_wild, P, N) \<Rightarrow> do {
        (beta, q, delta, rho, gamma_mild, gamma_wild, k) \<leftarrow> unpack7 x;
        let pC = 1 - exp (- rho);
        let pR_mild = 1 - exp (- gamma_mild);
        let pR_wild = 1 - exp (- gamma_wild);
        logB \<leftarrow> binom_loglik stats S P B epsilon;
        logC \<leftarrow> binom_loglik stats E [pC] C epsilon;
        logD_mild \<leftarrow> binom_loglik stats I_mild [pR_mild] D_mild epsilon;
        logD_wild \<leftarrow> binom_loglik stats I_wild [pR_wild] D_wild epsilon;
        _ \<leftarrow> py_assert (length priors \<le> length x);
        let log_prior =
          sum_list (map (\<lambda>((a, b), xi). ln (gamma_pdf stats a b xi + epsilon)) (zip priors x));
        Some (logB + logC + logD_mild + logD_wild + log_prior)
      })"

definition sample_params_conditions_fn ::
  "(real \<times> real option) list \<Rightarrow> rvec \<Rightarrow> pdata \<Rightarrow> bool option"
where
  "sample_params_conditions_fn bounds x data =
     (case data of (S, E, I_mild, I_wild, P, N) \<Rightarrow> do {
        _ \<leftarrow> unpack7 x;
        if \<not> list_all (\<lambda>v. 0 < v) x then Some False
        else if \<not> list_all (\<lambda>v. 0 \<le> v) S \<or> \<not> list_all (\<lambda>v. 0 \<le> v) E \<or>
                \<not> list_all (\<lambda>v. 0 \<le> v) I_mild \<or> \<not> list_all (\<lambda>v. 0 \<le> v) I_wild then Some False
        else if list_ex (\<lambda>((a, b), xi). xi < a \<or> (case b of None \<Rightarrow> False | Some b' \<Rightarrow> xi > b'))
                  (zip bounds x) then Some False
        else do { _ \<leftarrow> py_assert (length bounds \<le> length x); Some True }
      })"

datatype 'a trial = Feasible 'a | Infeasible

text \<open>
  One attempt of the proposal: \<open>x_new = np.random.normal(x, rand_walk_stds)\<close> is the
  draw. \<open>N\<close> is the population of the current data, \<open>old_k\<close> the seventh parameter
  before the step, \<open>N_new[N_new<1] = 1\<close> lifts the rescaled population to 1.
\<close>

definition sample_params_attempt ::
  "int \<times> int \<times> int \<Rightarrow> ivec \<Rightarrow> ivec \<Rightarrow> ivec \<Rightarrow> ivec \<Rightarrow> real \<Rightarrow> nat \<Rightarrow> nat \<Rightarrow> rvec \<Rightarrow> pdata \<Rightarrow>
   (rvec \<Rightarrow> pdata \<Rightarrow> bool option) \<Rightarrow> (rvec \<times> pdata) trial option"
where
  "sample_params_attempt inits B C D_mild D_wild old_k t_ctrl t_end x_new data conditions_fn =
     (case inits of (e0, i_mild0, i_wild0) \<Rightarrow>
      case data of (S, E, I_mild, I_wild, P, N) \<Rightarrow> do {
        (beta, q, delta, rho, gamma_mild, gamma_wild, k) \<leftarrow> unpack7 x_new;
        let N_new = map (\<lambda>n. round_int (real_of_int n * old_k / k)) N;
        let N_new = map (\<lambda>n. if n < 1 then 1 else n) N_new;
        S_new \<leftarrow> compute_S e0 i_mild0 i_wild0 B N_new;
        E_new \<leftarrow> compute_E e0 B C;
        I_mild_new \<leftarrow> compute_I i_mild0 (map (\<lambda>c. round_int (real_of_int c * delta)) C) D_mild;
        c_wild \<leftarrow> np_binop (\<lambda>u v. u - v) C (map (\<lambda>c. round_int (real_of_int c * delta)) C);
        I_wild_new \<leftarrow> compute_I i_wild0 c_wild D_wild;
        t_rate \<leftarrow> transmission_rate beta q t_ctrl t_end;
        P_new \<leftarrow> compute_P t_rate I_mild_new I_wild_new N_new;
        let data_new = (S_new, E_new, I_mild_new, I_wild_new, P_new, N_new);
        ok \<leftarrow> conditions_fn x_new data_new;
        Some (if ok then Feasible (x_new, data_new) else Infeasible)
      })"

function sample_params_proposal_loop ::
  "nat \<Rightarrow> int \<times> int \<times> int \<Rightarrow> ivec \<Rightarrow> ivec \<Rightarrow> ivec \<Rightarrow> ivec \<Rightarrow> real \<Rightarrow> nat \<Rightarrow> nat \<Rightarrow> (nat \<Rightarrow> rvec) \<Rightarrow>
   rvec \<Rightarrow> pdata \<Rightarrow> (rvec \<Rightarrow> pdata \<Rightarrow> bool option) \<Rightarrow> (rvec \<times> pdata) option"
where
  "sample_params_proposal_loop n_tries inits B C D_mild D_wild old_k t_ctrl t_end draws
     x data conditions_fn =
     (if n_tries < 100 then
        (case sample_params_attempt inits B C D_mild D_wild old_k t_ctrl t_end
                (draws n_tries) data conditions_fn of
           None \<Rightarrow> None
         | Some (Feasible r) \<Rightarrow> Some r
         | Some Infeasible \<Rightarrow>
             sample_params_proposal_loop (n_tries + 1) inits B C D_mild D_wild old_k t_ctrl t_end
               draws x data conditions_fn)
      else Some (x, data))"
  by pat_completeness auto
termination
  by (relation "measure (\<lambda>(n_tries, _). 100 - n_tries)") auto

definition sample_params_proposal ::
  "int \<times> int \<times> int \<Rightarrow> ivec \<Rightarrow> ivec \<Rightarrow> ivec \<Rightarrow> ivec \<Rightarrow> real \<Rightarrow> nat \<Rightarrow> nat \<Rightarrow> (nat \<Rightarrow> rvec) \<Rightarrow>
   rvec \<Rightarrow> pdata \<Rightarrow> (rvec \<Rightarrow> pdata \<Rightarrow> bool option) \<Rightarrow> (rvec \<times> pdata) option"
where
  "sample_params_proposal inits B C D_mild D_wild old_k t_ctrl t_end draws x data conditions_fn =
     sample_params_proposal_loop 0 inits B C D_mild D_wild old_k t_ctrl t_end draws
       x data conditions_fn"

text \<open>
  \<open>sample_params\<close>. After the Metropolis step the source computes
  \<open>R0t = t_rate /(delta*gamma_mild+(1-delta)*gamma_wild) * S/N\<close> and only then unpacks
  \<open>S, E, I_mild, I_wild, P, N = data\<close>: the \<open>S\<close> and \<open>N\<close> of \<open>R0t\<close> are those of
  \<open>variables\<close>.
\<close>

definition sample_params ::
  "scipy_stats \<Rightarrow> rvec \<Rightarrow>
   ivec \<times> ivec \<times> ivec \<times> ivec \<times> ivec \<times> ivec \<times> ivec \<times> ivec \<times> rvec \<times> ivec \<Rightarrow>
   int \<times> int \<times> int \<Rightarrow> (real \<times> real) list \<Rightarrow> nat \<Rightarrow> real \<Rightarrow> (real \<times> real option) list \<Rightarrow>
   (nat \<Rightarrow> (nat \<Rightarrow> rvec) \<times> real) \<Rightarrow>
   (rvec \<times> ivec \<times> ivec \<times> ivec \<times> ivec \<times> rvec \<times> ivec \<times> rvec \<times> real \<times> real) option"
where
  "sample_params stats params variables inits priors t_ctrl epsilon bounds rnd =
     (case variables of (S, E, I_mild, I_wild, B, C, D_mild, D_wild, P, N) \<Rightarrow> do {
        let t_end = length N;
        (beta, q, delta, rho, gamma_mild, gamma_wild, k) \<leftarrow> unpack7 params;
        let old_k = k;
        (params_new, data, log_prob_new, log_prob_old) \<leftarrow>
          metropolis_hastings params (S, E, I_mild, I_wild, P, N)
            (sample_params_fn stats B C D_mild D_wild priors epsilon)
            (sample_params_proposal inits B C D_mild D_wild old_k t_ctrl t_end)
            (sample_params_conditions_fn bounds) 1 rnd;
        (beta, q, delta, rho, gamma_mild, gamma_wild, k) \<leftarrow> unpack7 params_new;
        t_rate \<leftarrow> transmission_rate beta q t_ctrl t_end;
        a \<leftarrow> np_binop (\<lambda>r s. r * real_of_int s)
               (map (\<lambda>r. r / (delta * gamma_mild + (1 - delta) * gamma_wild)) t_rate) S;
        R0t \<leftarrow> np_binop (\<lambda>u n. u / real_of_int n) a N;
        (case data of (S', E', I_mild', I_wild', P', N') \<Rightarrow>
           Some (params_new, S', E', I_mild', I_wild', P', N', R0t, log_prob_new, log_prob_old))
      })"

section \<open>The representation invariant and the training loop\<close>

text \<open>\<open>assert (a == b).all()\<close>\<close>

definition assert_all_eq :: "'a list \<Rightarrow> 'a list \<Rightarrow> unit option" where
  "assert_all_eq a b = do {
     eq \<leftarrow> np_binop (\<lambda>u v. u = v) a b;
     py_assert (list_all (\<lambda>e. e) eq)
   }"

text \<open>\<open>check_rep_inv\<close> returns when every assertion holds.\<close>

definition check_rep_inv ::
  "ivec \<Rightarrow> ivec \<Rightarrow> ivec \<Rightarrow> ivec \<Rightarrow> ivec \<Rightarrow> ivec \<Rightarrow> ivec \<Rightarrow> ivec \<Rightarrow> rvec \<Rightarrow> ivec \<Rightarrow> int \<times> int \<times> int \<Rightarrow>
   rvec \<Rightarrow> nat \<Rightarrow> nat \<Rightarrow> unit option"
where
  "check_rep_inv S E I_mild I_wild B C D_mild D_wild P N inits params t_ctrl t_end =
     (case inits of (e0, i_mild0, i_wild0) \<Rightarrow> do {
        (beta, q, delta, rho, gamma_mild, gamma_wild, k) \<leftarrow> unpack7 params;
        _ \<leftarrow> py_assert (list_all (\<lambda>v. 0 \<le> v) I_mild);
        _ \<leftarrow> py_assert (list_all (\<lambda>v. 0 \<le> v) I_wild);
        _ \<leftarrow> py_assert (list_all (\<lambda>v. 0 \<le> v) S);
        _ \<leftarrow> py_assert (list_all (\<lambda>v. 0 \<le> v) E);
        i \<leftarrow> np_binop (\<lambda>u v. u + v) I_mild I_wild;
        _ \<leftarrow> py_assert (list_all (\<lambda>v. 0 \<le> v) i);
        _ \<leftarrow> py_assert (list_all (\<lambda>v. 0 \<le> v) B);
        _ \<leftarrow> py_assert (list_all (\<lambda>v. 0 \<le> v) C);
        _ \<leftarrow> py_assert (list_all (\<lambda>v. 0 \<le> v) D_mild);
        _ \<leftarrow> py_assert (list_all (\<lambda>v. 0 \<le> v) D_wild);
        _ \<leftarrow> py_assert (list_all (\<lambda>p. p \<le> 1) P \<and> list_all (\<lambda>p. 0 \<le> p) P);
        S' \<leftarrow> compute_S e0 i_mild0 i_wild0 B N;
        _ \<leftarrow> assert_all_eq S S';
        E' \<leftarrow> compute_E e0 B C;
        _ \<leftarrow> assert_all_eq E E';
        I_mild' \<leftarrow> compute_I i_mild0 (map (\<lambda>c. round_int (real_of_int c * delta)) C) D_mild;
        _ \<leftarrow> assert_all_eq I_mild I_mild';
        c_wild \<leftarrow> np_binop (\<lambda>u v. u - v) C (map (\<lambda>c. round_int (real_of_int c * delta)) C);
        I_wild' \<leftarrow> compute_I i_wild0 c_wild D_wild;
        _ \<leftarrow> assert_all_eq I_wild I_wild';
        t_rate \<leftarrow> transmission_rate beta q t_ctrl t_end;
        P' \<leftarrow> compute_P t_rate I_mild I_wild N;
        assert_all_eq P P'
      })"

text \<open>The variables of \<open>train\<close> that the loop updates.\<close>

record state =
  st_S :: ivec
  st_E :: ivec
  st_I_mild :: ivec
  st_I_wild :: ivec
  st_B :: ivec
  st_C :: ivec
  st_D_mild :: ivec
  st_D_wild :: ivec
  st_P :: rvec
  st_N :: ivec
  st_params :: rvec

definition check_state :: "state \<Rightarrow> int \<times> int \<times> int \<Rightarrow> nat \<Rightarrow> nat \<Rightarrow> unit option" where
  "check_state st inits t_ctrl t_end =
     check_rep_inv (st_S st) (st_E st) (st_I_mild st) (st_I_wild st) (st_B st) (st_C st)
       (st_D_mild st) (st_D_wild st) (st_P st) (st_N st) inits (st_params st) t_ctrl t_end"

text \<open>The four updates of one iteration, each the call of a sampler and the assignment of
  what it returns.\<close>

definition update_B ::
  "scipy_stats \<Rightarrow> int \<times> int \<times> int \<Rightarrow> nat \<Rightarrow> real \<Rightarrow> (nat \<Rightarrow> (nat \<Rightarrow> draw) \<times> real) \<Rightarrow> state \<Rightarrow>
   state option"
where
  "update_B stats inits t_ctrl epsilon rnd st = do {
     (B, S, E, log_prob_new, log_prob_old) \<leftarrow>
       sample_B stats (st_B st)
         (st_S st, st_E st, st_I_mild st, st_I_wild st, st_C st, st_P st, st_N st)
         inits (st_params st) t_ctrl epsilon rnd;
     Some (st\<lparr>st_B := B, st_S := S, st_E := E\<rparr>)
   }"

definition update_C ::
  "scipy_stats \<Rightarrow> int \<times> int \<times> int \<Rightarrow> nat \<Rightarrow> real \<Rightarrow> (nat \<Rightarrow> (nat \<Rightarrow> draw) \<times> real) \<Rightarrow> state \<Rightarrow>
   state option"
where
  "update_C stats inits t_ctrl epsilon rnd st = do {
     (C, E, I_mild, I_wild, P, log_prob_new, log_prob_old) \<leftarrow>
       sample_C stats (st_C st)
         (st_E st, st_I_mild st, st_I_wild st, st_D_mild st, st_D_wild st, st_B st, st_N st,
          st_P st)
         inits (st_params st) t_ctrl epsilon rnd;
     Some (st\<lparr>st_C := C, st_E := E, st_I_mild := I_mild, st_I_wild := I_wild, st_P := P\<rparr>)
   }"

definition update_D_mild ::
  "scipy_stats \<Rightarrow> int \<times> int \<times> int \<Rightarrow> nat \<Rightarrow> real \<Rightarrow> (nat \<Rightarrow> (nat \<Rightarrow> draw) \<times> real) \<Rightarrow> state \<Rightarrow>
   state option"
where
  "update_D_mild stats inits t_ctrl epsilon rnd st = do {
     (D_mild, I_mild, P, log_prob_new, log_prob_old) \<leftarrow>
       sample_D_mild stats (st_D_mild st) (st_I_mild st, st_I_wild st, st_C st, st_N st)
         inits (st_params st) t_ctrl epsilon rnd;
     Some (st\<lparr>st_D_mild := D_mild, st_I_mild := I_mild, st_P := P\<rparr>)
   }"

definition update_params ::
  "scipy_stats \<Rightarrow> int \<times> int \<times> int \<Rightarrow> (real \<times> real) list \<Rightarrow> nat \<Rightarrow> real \<Rightarrow>
   (real \<times> real option) list \<Rightarrow> (nat \<Rightarrow> (nat \<Rightarrow> rvec) \<times> real) \<Rightarrow> state \<Rightarrow> (state \<times> rvec) option"
where
  "update_params stats inits priors t_ctrl epsilon bounds rnd st = do {
     (params, S, E, I_mild, I_wild, P, N, R0t, log_prob_new, log_prob_old) \<leftarrow>
       sample_params stats (st_params st)
         (st_S st, st_E st, st_I_mild st, st_I_wild st, st_B st, st_C st, st_D_mild st,
          st_D_wild st, st_P st, st_N st)
         inits priors t_ctrl epsilon bounds rnd;
     Some (st\<lparr>st_params := params, st_S := S, st_E := E, st_I_mild := I_mild,
              st_I_wild := I_wild, st_P := P, st_N := N\<rparr>, R0t)
   }"

text \<open>The draws of one iteration of the loop.\<close>

record iter_draws =
  draws_B :: "nat \<Rightarrow> (nat \<Rightarrow> draw) \<times> real"
  draws_C :: "nat \<Rightarrow> (nat \<Rightarrow> draw) \<times> real"
  draws_D_mild :: "nat \<Rightarrow> (nat \<Rightarrow> draw) \<times> real"
  draws_params :: "nat \<Rightarrow> (nat \<Rightarrow> rvec) \<times> real"

text \<open>
  The body of the loop of \<open>train\<close> up to the fourth check: the three latent series, then
  the parameters, with \<open>check_rep_inv\<close> after each. \<open>t_end = len(N)\<close> is taken once,
  before the loop.
\<close>

definition train_iteration ::
  "scipy_stats \<Rightarrow> int \<times> int \<times> int \<Rightarrow> (real \<times> real) list \<Rightarrow> nat \<Rightarrow> nat \<Rightarrow> real \<Rightarrow>
   (real \<times> real option) list \<Rightarrow> iter_draws \<Rightarrow> state \<Rightarrow> (state \<times> rvec) option"
where
  "train_iteration stats inits priors t_ctrl t_end epsilon bounds rnd st = do {
     _ \<leftarrow> unpack7 (st_params st);
     st1 \<leftarrow> update_B stats inits t_ctrl epsilon (draws_B rnd) st;
     _ \<leftarrow> check_state st1 inits t_ctrl t_end;
     st2 \<leftarrow> update_C stats inits t_ctrl epsilon (draws_C rnd) st1;
     _ \<leftarrow> check_state st2 inits t_ctrl t_end;
     st3 \<leftarrow> update_D_mild stats inits t_ctrl epsilon (draws_D_mild rnd) st2;
     _ \<leftarrow> check_state st3 inits t_ctrl t_end;
     (st4, R0t) \<leftarrow> update_params stats inits priors t_ctrl epsilon bounds (draws_params rnd) st3;
     _ \<leftarrow> check_state st4 inits t_ctrl t_end;
     Some (st4, R0t)
   }"

text \<open>
  The summary after the loop:
  \<open>R0s = [(sum(D_mild)+sum(D_wild)) * p[0] / (sum(D_mild)*p[3]+sum(D_wild)*p[4]) for p in saved_params]\<close>,
  then \<open>np.mean(R0s) - CI_FACTOR * np.std(R0s)\<close> and the same with \<open>+\<close>, for
  \<open>CI_FACTOR = 1.96\<close>. A saved sample is the list
  \<open>[beta, q, delta, rho, gamma_mild, gamma_wild, k]\<close>.
\<close>

definition R0_of_sample :: "ivec \<Rightarrow> ivec \<Rightarrow> rvec \<Rightarrow> real" where
  "R0_of_sample D_mild D_wild p =
     real_of_int (sum_list D_mild + sum_list D_wild) * p ! 0 /
       (real_of_int (sum_list D_mild) * p ! 3 + real_of_int (sum_list D_wild) * p ! 4)"

definition np_mean :: "rvec \<Rightarrow> real" where
  "np_mean xs = sum_list xs / real (length xs)"

definition np_std :: "rvec \<Rightarrow> real" where
  "np_std xs = sqrt (np_mean (map (\<lambda>x. (x - np_mean xs)\<^sup>2) xs))"

definition R0_interval :: "ivec \<Rightarrow> ivec \<Rightarrow> rvec list \<Rightarrow> real \<times> real" where
  "R0_interval D_mild D_wild saved_params =
     (let R0s = map (R0_of_sample D_mild D_wild) saved_params;
          CI_FACTOR = 1.96
      in (np_mean R0s - CI_FACTOR * np_std R0s, np_mean R0s + CI_FACTOR * np_std R0s))"

text \<open>
  The formula of the specification for the same number, with the removal rates
  \<open>gamma_mild\<close> and \<open>gamma_wild\<close> of the sample (its fifth and sixth entry).
\<close>

definition R0_spec :: "ivec \<Rightarrow> ivec \<Rightarrow> rvec \<Rightarrow> real" where
  "R0_spec D_mild D_wild p =
     (case p of [beta, q, delta, rho, gamma_mild, gamma_wild, k] \<Rightarrow>
        real_of_int (sum_list D_mild + sum_list D_wild) * beta /
          (real_of_int (sum_list D_mild) * gamma_mild + real_of_int (sum_list D_wild) * gamma_wild)
      | _ \<Rightarrow> 0)"

section \<open>Facts about the array operations\<close>

lemma length_np_put [simp]: "length (np_put x idx vals) = length x"
proof -
  have "length (fold (\<lambda>(i, v) a. a[i := v]) ps x) = length x" for ps :: "(nat \<times> 'a) list"
    by (induction ps arbitrary: x) (auto split: prod.splits)
  then show ?thesis by (simp add: np_put_def)
qed

lemma np_put_Nil [simp]: "np_put x [] vals = x" "np_put x idx [] = x"
  by (simp_all add: np_put_def)

lemma np_put_Cons [simp]: "np_put x (i # idx) (v # vals) = np_put (x[i := v]) idx vals"
  by (simp add: np_put_def)

lemma np_put_nth_notin: "j \<notin> set idx \<Longrightarrow> np_put x idx vals ! j = x ! j"
proof (induction idx arbitrary: x vals)
  case Nil
  then show ?case by simp
next
  case (Cons i idx)
  then show ?case by (cases vals) auto
qed

lemma np_put_nth_in:
  "distinct idx \<Longrightarrow> length vals = length idx \<Longrightarrow> k < length idx \<Longrightarrow> idx ! k < length x
     \<Longrightarrow> np_put x idx vals ! (idx ! k) = vals ! k"
proof (induction idx arbitrary: x vals k)
  case Nil
  then show ?case by simp
next
  case (Cons i idx)
  then obtain v vs where vals: "vals = v # vs" by (cases vals) auto
  show ?case
  proof (cases k)
    case 0
    with Cons.prems vals show ?thesis by (simp add: np_put_nth_notin)
  next
    case (Suc k')
    with Cons.prems vals Cons.IH [of vs k' "x[i := v]"] show ?thesis by simp
  qed
qed

lemma cumsum_from_length [simp]: "length (cumsum_from acc xs) = length xs"
  by (induction xs arbitrary: acc) auto

lemma cumsum_from_nth:
  "i < length xs \<Longrightarrow> cumsum_from acc xs ! i = acc + sum_list (take (Suc i) xs)"
proof (induction xs arbitrary: acc i)
  case Nil
  then show ?case by simp
next
  case (Cons x xs)
  then show ?case by (cases i) auto
qed

lemma length_shifted_cumsum: "length (shifted_cumsum v) = (if v = [] then 1 else length v)"
  by (cases v) (simp_all add: shifted_cumsum_def cumsum_def del: butlast.simps)

lemma shifted_cumsum_nth:
  assumes "t < length v"
  shows "shifted_cumsum v ! t = sum_list (take t v)"
proof (cases t)
  case 0
  then show ?thesis by (simp add: shifted_cumsum_def)
next
  case (Suc k)
  with assms have k: "k < length (cumsum v) - 1" by (simp add: cumsum_def)
  have "shifted_cumsum v ! t = butlast (cumsum v) ! k"
    using Suc by (simp add: shifted_cumsum_def)
  also have "\<dots> = cumsum v ! k"
    using k by (simp add: nth_butlast)
  also have "\<dots> = sum_list (take (Suc k) v)"
    using assms Suc by (simp add: cumsum_def cumsum_from_nth)
  finally show ?thesis using Suc by simp
qed

lemma transmission_rate_Some:
  "transmission_rate beta q t_ctrl t_end =
     Some (if t_ctrl < t_end
           then np_put (replicate t_end beta) [t_ctrl..<t_end]
                  (map (\<lambda>i. beta * exp (- q * (real i - real t_ctrl))) [t_ctrl..<t_end])
           else replicate t_end beta)"
  by (simp add: transmission_rate_def py_assert_def Let_def)

lemma transmission_rate_nth:
  assumes "transmission_rate beta q t_ctrl t_end = Some r" "t < t_end"
  shows "r ! t = (if t < t_ctrl then beta else beta * exp (- q * (real t - real t_ctrl)))"
proof (cases "t < t_ctrl")
  case True
  then have "t \<notin> set [t_ctrl..<t_end]" by simp
  with assms True show ?thesis
    by (auto simp: transmission_rate_Some np_put_nth_notin split: if_splits)
next
  case False
  define k where "k = t - t_ctrl"
  have k: "k < length [t_ctrl..<t_end]" "[t_ctrl..<t_end] ! k = t"
    using False assms(2) by (simp_all add: k_def)
  have "np_put (replicate t_end beta) [t_ctrl..<t_end]
          (map (\<lambda>i. beta * exp (- q * (real i - real t_ctrl))) [t_ctrl..<t_end]) ! ([t_ctrl..<t_end] ! k)
        = map (\<lambda>i. beta * exp (- q * (real i - real t_ctrl))) [t_ctrl..<t_end] ! k"
    using k assms(2) by (intro np_put_nth_in) simp_all
  with k False assms show ?thesis
    by (auto simp: transmission_rate_Some split: if_splits)
qed

lemma transmission_rate_length:
  "transmission_rate beta q t_ctrl t_end = Some r \<Longrightarrow> length r = t_end"
  by (auto simp: transmission_rate_Some split: if_splits)

section \<open>The transmission rate\<close>

text \<open>
  Claim C8. For every \<open>beta\<close>, \<open>q\<close>, day of control and horizon, \<open>transmission_rate\<close>
  returns a sequence of length \<open>t_end\<close> whose entry at day \<open>t\<close> is \<open>beta\<close> before the
  day of control and \<open>beta * exp (- q * (t - t_ctrl))\<close> from it on; when the day of control
  is at or after the horizon the result is the constant \<open>beta\<close>, as in
  \<open>transmission_rate(2.0, 0.1, 3, 3)\<close>; and \<open>transmission_rate(2.0, 0.1, 0, 3)\<close> is
  \<open>[2.0, 2.0 * exp(-0.1), 2.0 * exp(-0.2)]\<close>.
\<close>

theorem transmission_rate_spec:
  "(\<exists>r. transmission_rate beta q t_ctrl t_end = Some r \<and> length r = t_end \<and>
        (\<forall>t<t_end. r ! t = (if t < t_ctrl then beta
                             else beta * exp (- q * (real t - real t_ctrl))))) \<and>
   (t_end \<le> t_ctrl \<longrightarrow> transmission_rate beta q t_ctrl t_end = Some (replicate t_end beta)) \<and>
   transmission_rate 2 (1/10) 3 3 = Some [2, 2, 2] \<and>
   transmission_rate 2 (1/10) 0 3 = Some [2, 2 * exp (- (1/10)), 2 * exp (- (2/10))]"
proof (intro conjI)
  obtain r where r: "transmission_rate beta q t_ctrl t_end = Some r"
    by (simp add: transmission_rate_Some)
  then show "\<exists>r. transmission_rate beta q t_ctrl t_end = Some r \<and> length r = t_end \<and>
        (\<forall>t<t_end. r ! t = (if t < t_ctrl then beta
                             else beta * exp (- q * (real t - real t_ctrl))))"
    using transmission_rate_nth [OF r] transmission_rate_length [OF r] by blast
  show "t_end \<le> t_ctrl \<longrightarrow> transmission_rate beta q t_ctrl t_end = Some (replicate t_end beta)"
    by (simp add: transmission_rate_Some)
  show "transmission_rate 2 (1/10) 3 3 = Some [2, 2, 2]"
    by (simp add: transmission_rate_Some numeral_3_eq_3)
  show "transmission_rate 2 (1/10) 0 3 = Some [2, 2 * exp (- (1/10)), 2 * exp (- (2/10))]"
    by (simp add: transmission_rate_Some numeral_3_eq_3 upt_rec)
qed

theorem transmission_rate_spec_witness:
  "\<exists>r. transmission_rate 2 (1/10) 1 3 = Some r \<and> length r = 3 \<and>
       r ! 0 = 2 \<and> r ! 1 = 2 * exp (- (1/10) * (1 - 1)) \<and> r ! 2 = 2 * exp (- (1/10) * (2 - 1))"
proof -
  from transmission_rate_spec [of 2 "1/10" 1 3]
  obtain r where r: "transmission_rate 2 (1/10) 1 3 = Some r" "length r = 3"
    "\<forall>t<3. r ! t = (if t < 1 then 2 else 2 * exp (- (1/10) * (real t - real 1)))"
    by blast
  from r(3) have "r ! 0 = 2" "r ! 1 = 2 * exp (- (1/10) * (1 - 1))"
    "r ! 2 = 2 * exp (- (1/10) * (2 - 1))"
    by simp_all
  with r(1,2) show ?thesis by blast
qed

text \<open>
  Claim C4. The claim is that \<open>transmission_rate\<close> raises whenever the rate has a negative
  entry. The assertion of the source compares the boolean \<open>trans_rate.all()\<close> with 0 and
  never fails: with \<open>beta = -1\<close> the function returns a sequence of negative rates.
\<close>

theorem transmission_rate_negative_beta_returns:
  "transmission_rate (- 1) (1/10) 0 3 = Some [- 1, - exp (- (1/10)), - exp (- (2/10))]"
  by (simp add: transmission_rate_Some numeral_3_eq_3 upt_rec)

lemma np_binop_same_length:
  "length xs = length ys \<Longrightarrow> np_binop f xs ys = Some (map2 f xs ys)"
  by (simp add: np_binop_def)

lemma np_binop_elem:
  assumes "np_binop f xs ys = Some zs" "z \<in> set zs"
  shows "\<exists>x\<in>set xs. \<exists>y\<in>set ys. z = f x y"
proof -
  have one: "length l = 1 \<Longrightarrow> hd l \<in> set l" for l :: "'d list"
    by (cases l) auto
  consider (eq) "length xs = length ys"
    | (l) "length xs \<noteq> length ys" "length xs = 1"
    | (r) "length xs \<noteq> length ys" "length xs \<noteq> 1" "length ys = 1"
    using assms(1) by (auto simp: np_binop_def split: if_splits)
  then show ?thesis
  proof cases
    case eq
    with assms have "z \<in> set (map2 f xs ys)" by (simp add: np_binop_def)
    then obtain x y where xy: "(x, y) \<in> set (zip xs ys)" "z = f x y" by auto
    from xy(1) have "x \<in> set xs" "y \<in> set ys"
      by (rule set_zip_leftD, rule set_zip_rightD)
    with xy(2) show ?thesis by blast
  next
    case l
    with assms have "z \<in> set (map (f (hd xs)) ys)" by (simp add: np_binop_def)
    with one [OF l(2)] show ?thesis by auto
  next
    case r
    with assms have "z \<in> set (map (\<lambda>x. f x (hd ys)) xs)" by (simp add: np_binop_def)
    with one [OF r(3)] show ?thesis by auto
  qed
qed

lemma compute_P_elem:
  assumes "compute_P trans_rate I_mild I_wild N = Some P" "p \<in> set P"
  shows "\<exists>r\<in>set trans_rate. \<exists>a\<in>set I_mild. \<exists>b\<in>set I_wild. \<exists>n\<in>set N.
           p = 1 - exp (- r * real_of_int (a + b) / real_of_int n)"
proof -
  from assms(1) obtain i a b where
    i: "np_binop (\<lambda>u v. u + v) I_mild I_wild = Some i" and
    a: "np_binop (\<lambda>r j. r * real_of_int j) (map uminus trans_rate) i = Some a" and
    b: "np_binop (\<lambda>u n. u / real_of_int n) a N = Some b" and
    P: "P = map (\<lambda>v. 1 - exp v) b"
    by (auto simp: compute_P_def bind_eq_Some_conv)
  from assms(2) P obtain v where v: "v \<in> set b" "p = 1 - exp v" by auto
  from np_binop_elem [OF b v(1)] obtain u n where
    u: "u \<in> set a" "n \<in> set N" "v = u / real_of_int n" by blast
  from np_binop_elem [OF a u(1)] obtain r' j where
    r': "r' \<in> set (map uminus trans_rate)" "j \<in> set i" "u = r' * real_of_int j" by blast
  from np_binop_elem [OF i r'(2)] obtain c d where
    cd: "c \<in> set I_mild" "d \<in> set I_wild" "j = c + d" by blast
  from r'(1) obtain r where r: "r \<in> set trans_rate" "r' = - r" by auto
  show ?thesis using v u r' cd r by blast
qed

lemma compute_P_same_length:
  assumes "length trans_rate = length N" "length I_mild = length N" "length I_wild = length N"
  shows "compute_P trans_rate I_mild I_wild N =
           Some (map (\<lambda>t. 1 - exp (- (trans_rate ! t) * real_of_int (I_mild ! t + I_wild ! t)
                                     / real_of_int (N ! t))) [0..<length N])"
proof -
  have "map (\<lambda>v. 1 - exp v)
          (map2 (\<lambda>u n. u / real_of_int n)
             (map2 (\<lambda>r j. r * real_of_int j) (map uminus trans_rate)
                (map2 (\<lambda>u v. u + v) I_mild I_wild)) N)
        = map (\<lambda>t. 1 - exp (- (trans_rate ! t) * real_of_int (I_mild ! t + I_wild ! t)
                                     / real_of_int (N ! t))) [0..<length N]"
    using assms by (intro nth_equalityI) simp_all
  then show ?thesis
    using assms by (simp add: compute_P_def np_binop_same_length)
qed

section \<open>The infection probability\<close>

text \<open>
  Claim C9. For a non-negative transmission rate, non-negative \<open>I_mild\<close> and \<open>I_wild\<close>
  and a positive \<open>N\<close>, every entry of what \<open>compute_P\<close> returns is between 0 and 1, and
  for sequences of one length it returns a sequence of that length. (The bound
  \<open>I_mild(t) + I_wild(t) \<le> N(t)\<close> of the claim is not needed.)
\<close>

theorem compute_P_bounded:
  assumes "\<forall>r\<in>set trans_rate. 0 \<le> r" "\<forall>i\<in>set I_mild. 0 \<le> i" "\<forall>i\<in>set I_wild. 0 \<le> i"
    "\<forall>n\<in>set N. 0 < n"
  shows "(\<forall>P. compute_P trans_rate I_mild I_wild N = Some P \<longrightarrow> (\<forall>p\<in>set P. 0 \<le> p \<and> p \<le> 1)) \<and>
         (length trans_rate = length N \<and> length I_mild = length N \<and> length I_wild = length N \<longrightarrow>
            (\<exists>P. compute_P trans_rate I_mild I_wild N = Some P \<and> length P = length N))"
proof -
  have bounded: "0 \<le> p \<and> p \<le> 1"
    if "compute_P trans_rate I_mild I_wild N = Some P" "p \<in> set P" for P p
  proof -
    from compute_P_elem [OF that] obtain r a b n where
      *: "r \<in> set trans_rate" "a \<in> set I_mild" "b \<in> set I_wild" "n \<in> set N"
         "p = 1 - exp (- r * real_of_int (a + b) / real_of_int n)" by blast
    with assms have "0 \<le> r" "0 \<le> a + b" "0 < n" by auto
    then have "0 \<le> r * real_of_int (a + b) / real_of_int n" by simp
    then have "- r * real_of_int (a + b) / real_of_int n \<le> 0" by simp
    then have "exp (- r * real_of_int (a + b) / real_of_int n) \<le> 1"
      by (simp only: exp_le_one_iff)
    moreover have "0 < exp (- r * real_of_int (a + b) / real_of_int n)"
      by (rule exp_gt_zero)
    ultimately show ?thesis using *(5) by linarith
  qed
  have returns: "\<exists>P. compute_P trans_rate I_mild I_wild N = Some P \<and> length P = length N"
    if "length trans_rate = length N \<and> length I_mild = length N \<and> length I_wild = length N"
    using that by (simp add: compute_P_same_length)
  from bounded returns show ?thesis by blast
qed

theorem compute_P_bounded_witness:
  "\<exists>P. compute_P [1, 2] [1, 0] [0, 1] [2, 2] = Some P \<and> length P = 2 \<and>
       (\<forall>p\<in>set P. 0 \<le> p \<and> p \<le> 1)"
proof -
  have h: "\<forall>r\<in>set [1, 2 :: real]. 0 \<le> r" "\<forall>i\<in>set [1, 0 :: int]. 0 \<le> i"
    "\<forall>i\<in>set [0, 1 :: int]. 0 \<le> i" "\<forall>n\<in>set [2, 2 :: int]. 0 < n"
    by simp_all
  have l: "length [1, 2 :: real] = length [2, 2 :: int] \<and>
           length [1, 0 :: int] = length [2, 2 :: int] \<and>
           length [0, 1 :: int] = length [2, 2 :: int]" by simp
  from compute_P_bounded [OF h] l obtain P where
    P: "compute_P [1, 2] [1, 0] [0, 1] [2, 2] = Some P" "length P = length [2, 2 :: int]"
    by blast
  from compute_P_bounded [OF h] P(1) have "\<forall>p\<in>set P. 0 \<le> p \<and> p \<le> 1" by blast
  with P show ?thesis by simp
qed

section \<open>The susceptibles\<close>

lemma compute_S_same_length:
  assumes "N \<noteq> []" "length B = length N"
  shows "compute_S e0 i_mild0 i_wild0 B N =
           Some (map (\<lambda>t. N ! 0 - sum_list (take t B) + N ! t - N ! 0) [0..<length N])"
proof -
  from assms obtain n0 ns where N: "N = n0 # ns" by (cases N) auto
  from assms have B: "B \<noteq> []" by auto
  have n0: "N ! 0 = n0" by (simp add: N)
  have len: "length (shifted_cumsum B) = length N"
    using B assms(2) by (simp add: length_shifted_cumsum)
  have "compute_S e0 i_mild0 i_wild0 B N =
          Some (map (\<lambda>v. v - n0) (map2 (\<lambda>u v. u + v) (map (\<lambda>c. n0 - c) (shifted_cumsum B)) N))"
    using len by (simp add: compute_S_def N np_binop_same_length)
  also have "map (\<lambda>v. v - n0) (map2 (\<lambda>u v. u + v) (map (\<lambda>c. n0 - c) (shifted_cumsum B)) N)
             = map (\<lambda>t. N ! 0 - sum_list (take t B) + N ! t - N ! 0) [0..<length N]"
  proof (rule nth_equalityI)
    show "length (map (\<lambda>v. v - n0) (map2 (\<lambda>u v. u + v) (map (\<lambda>c. n0 - c) (shifted_cumsum B)) N))
          = length (map (\<lambda>t. N ! 0 - sum_list (take t B) + N ! t - N ! 0) [0..<length N])"
      using len by simp
  next
    fix i
    assume "i < length (map (\<lambda>v. v - n0)
                 (map2 (\<lambda>u v. u + v) (map (\<lambda>c. n0 - c) (shifted_cumsum B)) N))"
    then have i: "i < length N" using len by simp
    then have "shifted_cumsum B ! i = sum_list (take i B)"
      using assms(2) by (simp add: shifted_cumsum_nth)
    then show "map (\<lambda>v. v - n0) (map2 (\<lambda>u v. u + v) (map (\<lambda>c. n0 - c) (shifted_cumsum B)) N) ! i
          = map (\<lambda>t. N ! 0 - sum_list (take t B) + N ! t - N ! 0) [0..<length N] ! i"
      using i len n0 by simp
  qed
  finally show ?thesis .
qed

text \<open>
  Claim C10. \<open>compute_S\<close> does not depend on its first three arguments: for any two
  triples of initial values the result is the same, and for \<open>B\<close> and \<open>N\<close> of one length
  it is the sequence \<open>N(0) - (sum of B before t) + N(t) - N(0)\<close>.
\<close>

theorem compute_S_ignores_inits:
  "compute_S e0 i_mild0 i_wild0 B N = compute_S e0' i_mild0' i_wild0' B N \<and>
   (N \<noteq> [] \<and> length B = length N \<longrightarrow>
      compute_S e0 i_mild0 i_wild0 B N =
        Some (map (\<lambda>t. N ! 0 - sum_list (take t B) + N ! t - N ! 0) [0..<length N]))"
proof -
  have "compute_S e0 i_mild0 i_wild0 B N = compute_S e0' i_mild0' i_wild0' B N"
    by (simp add: compute_S_def)
  then show ?thesis using compute_S_same_length by blast
qed

theorem compute_S_ignores_inits_witness:
  "compute_S 5 1 2 [1, 2, 3] [10, 10, 12] = compute_S 0 0 0 [1, 2, 3] [10, 10, 12] \<and>
   compute_S 5 1 2 [1, 2, 3] [10, 10, 12] = Some [10, 9, 9]"
proof -
  have h: "[10, 10, 12 :: int] \<noteq> [] \<and> length [1, 2, 3 :: int] = length [10, 10, 12 :: int]"
    by simp
  have i: "[0..<length [10, 10, 12 :: int]] = [0, 1, 2]"
    by (simp add: upt_rec)
  from compute_S_ignores_inits [of 5 1 2 "[1, 2, 3]" "[10, 10, 12]" 0 0 0] h
  have "compute_S 5 1 2 [1, 2, 3] [10, 10, 12] = compute_S 0 0 0 [1, 2, 3] [10, 10, 12]"
    and "compute_S 5 1 2 [1, 2, 3] [10, 10, 12] =
      Some (map (\<lambda>t. [10, 10, 12] ! 0 - sum_list (take t [1, 2, 3]) + [10, 10, 12] ! t
                   - [10, 10, 12 :: int] ! 0) [0..<length [10, 10, 12 :: int]])"
    by blast+
  then show ?thesis unfolding i by (simp add: numeral_2_eq_2)
qed

section \<open>The aggregate reproduction number\<close>

text \<open>
  Claim C2. The claim is that the aggregate number of a saved sample divides by
  \<open>sum(D_mild) * gamma_mild + sum(D_wild) * gamma_wild\<close>. The source reads the entries 3
  and 4 of the sample, which are \<open>rho\<close> and \<open>gamma_mild\<close>: for the sample
  \<open>[1, 0.1, 0.5, 0.5, 0.25, 0.125, 1]\<close> and one removal of each kind it computes 8/3,
  where the formula of the claim gives 16/3.
\<close>

theorem R0_of_sample_reads_rho_and_gamma_mild:
  "R0_of_sample D_mild D_wild [beta, q, delta, rho, gamma_mild, gamma_wild, k] =
     real_of_int (sum_list D_mild + sum_list D_wild) * beta /
       (real_of_int (sum_list D_mild) * rho + real_of_int (sum_list D_wild) * gamma_mild) \<and>
   R0_of_sample [1] [1] [1, 1/10, 1/2, 1/2, 1/4, 1/8, 1] = 8/3 \<and>
   R0_spec [1] [1] [1, 1/10, 1/2, 1/2, 1/4, 1/8, 1] = 16/3"
proof -
  have n: "[a, b, c, d, e, f, g] ! 3 = d" "[a, b, c, d, e, f, g] ! 4 = e"
    for a b c d e f g :: real
    by (simp_all add: numeral_3_eq_3 eval_nat_numeral)
  show ?thesis
    by (simp add: R0_of_sample_def R0_spec_def n)
qed

end
